theory Spec2Isabelle
  imports Main "HOL-Library.Word"
begin

section \<open>The DNG output plugin \<open>rawoutput.cpp\<close>\<close>

text \<open>
  The development follows \<open>src/raw.imageio/rawoutput.cpp\<close>: the CFA pattern encoder
  \<open>filter_str_to_cfapattern\<close>, and the three methods \<open>open\<close>, \<open>close\<close> and
  \<open>write_scanline\<close> of the class \<open>RawOutput\<close>. Calls into libtiff are recorded in a
  trace; what libtiff answers (the handle of \<open>TIFFOpen\<close>, the status of
  \<open>TIFFWriteScanline\<close>) is an argument of the method that asks.
\<close>

subsection \<open>The CFA pattern encoder\<close>

type_synonym byte = "8 word"

text \<open>The lambda \<open>channel_to_cfa_index\<close> of lines 64-73, with its chain of tests in order.\<close>

definition channel_to_cfa_index :: "char \<Rightarrow> byte" where
  "channel_to_cfa_index c =
     (if c = CHR ''R'' then 0
      else if c = CHR ''G'' then 1
      else if c = CHR ''B'' then 2
      else if c = CHR ''C'' then 3
      else if c = CHR ''M'' then 4
      else if c = CHR ''Y'' then 5
      else if c = CHR ''W'' then 6
      else 0)"

text \<open>
  Lines 61-81. \<open>cfapattern\<close> starts as four NUL characters; a filter whose size is not 4
  returns it as it is; otherwise the loop assigns the positions 0 to 3 in turn.
\<close>

definition filter_str_to_cfapattern :: "string \<Rightarrow> byte list" where
  "filter_str_to_cfapattern filter_str =
     (let cfapattern = replicate 4 (0::byte) in
      if length filter_str \<noteq> 4 then cfapattern
      else fold (\<lambda>i pat. pat[i := channel_to_cfa_index (filter_str ! i)]) [0..<4] cfapattern)"

text \<open>
  The table of the specification, section 3: Red=0, Green=1, Blue=2, Cyan=3, Magenta=4,
  Yellow=5, White=6. It is written from the specification's words and compared with the
  encoder below.
\<close>

definition spec_cfa_table :: "(char \<times> byte) list" where
  "spec_cfa_table =
     [(CHR ''R'', 0), (CHR ''G'', 1), (CHR ''B'', 2), (CHR ''C'', 3),
      (CHR ''M'', 4), (CHR ''Y'', 5), (CHR ''W'', 6)]"

subsection \<open>Types of the host library\<close>

text \<open>
  Modelled from the spec: the declarations of \<open>OpenImageIO/imageio.h\<close> and
  \<open>typedesc.h\<close> are not part of the source file. The specification (section 3) names an
  ImageSpec with width, height, full (display window) offsets and sizes, a pixel
  format, a channel count and an open-ended list of named, typed attributes. A
  \<open>float\<close> is only ever stored and copied by this plugin, so it is kept as its IEEE-754
  binary32 bit pattern.
\<close>

type_synonym float32 = "32 word"

definition f32_zero :: float32 where
  "f32_zero = 0x00000000"

definition f32_one :: float32 where
  "f32_one = 0x3F800000"

datatype BASETYPE =
  UNKNOWN | NONE | UINT8 | INT8 | UINT16 | INT16 | UINT32 | INT32 | UINT64 | INT64
  | HALF | FLOAT | DOUBLE | STRING | PTR

datatype AGGREGATE = SCALAR | VEC2 | VEC3 | VEC4 | MATRIX33 | MATRIX44

datatype VECSEMANTICS = NOSEMANTICS | COLOR | POINT | VECTOR | NORMAL

record TypeDesc =
  basetype :: BASETYPE
  aggregate :: AGGREGATE
  vecsemantics :: VECSEMANTICS
  arraylen :: int

definition TypeUInt16 :: TypeDesc where
  "TypeUInt16 = \<lparr>basetype = UINT16, aggregate = SCALAR, vecsemantics = NOSEMANTICS, arraylen = 0\<rparr>"

definition TypeUnknown :: TypeDesc where
  "TypeUnknown = \<lparr>basetype = UNKNOWN, aggregate = SCALAR, vecsemantics = NOSEMANTICS, arraylen = 0\<rparr>"

definition TypeString :: TypeDesc where
  "TypeString = \<lparr>basetype = STRING, aggregate = SCALAR, vecsemantics = NOSEMANTICS, arraylen = 0\<rparr>"

definition TypeMatrix33 :: TypeDesc where
  "TypeMatrix33 = \<lparr>basetype = FLOAT, aggregate = MATRIX33, vecsemantics = NOSEMANTICS, arraylen = 0\<rparr>"

definition TypeColor :: TypeDesc where
  "TypeColor = \<lparr>basetype = FLOAT, aggregate = VEC3, vecsemantics = COLOR, arraylen = 0\<rparr>"

fun basesize :: "BASETYPE \<Rightarrow> nat" where
  "basesize UNKNOWN = 0"
| "basesize NONE = 0"
| "basesize UINT8 = 1"
| "basesize INT8 = 1"
| "basesize UINT16 = 2"
| "basesize INT16 = 2"
| "basesize UINT32 = 4"
| "basesize INT32 = 4"
| "basesize UINT64 = 8"
| "basesize INT64 = 8"
| "basesize HALF = 2"
| "basesize FLOAT = 4"
| "basesize DOUBLE = 8"
| "basesize STRING = 8"
| "basesize PTR = 8"

fun aggregate_count :: "AGGREGATE \<Rightarrow> nat" where
  "aggregate_count SCALAR = 1"
| "aggregate_count VEC2 = 2"
| "aggregate_count VEC3 = 3"
| "aggregate_count VEC4 = 4"
| "aggregate_count MATRIX33 = 9"
| "aggregate_count MATRIX44 = 16"

definition TypeDesc_size :: "TypeDesc \<Rightarrow> nat" where
  "TypeDesc_size t =
     (if arraylen t > 0 then nat (arraylen t) else 1)
       * (aggregate_count (aggregate t) * basesize (basetype t))"

datatype pv_payload =
  FloatData "float32 list"
  | StringData string
  | IntData "32 word list"

record ParamValue =
  pv_name :: string
  pv_type :: TypeDesc
  pv_data :: pv_payload

record ImageSpec =
  width :: "32 word"
  height :: "32 word"
  full_x :: "32 word"
  full_y :: "32 word"
  full_width :: "32 word"
  full_height :: "32 word"
  nchannels :: "32 word"
  format :: TypeDesc
  channelformats :: "TypeDesc list"
  extra_attribs :: "ParamValue list"

text \<open>Modelled from the spec: a default-constructed ImageSpec, as the base class holds
  before any \<open>open\<close>.\<close>

definition ImageSpec_default :: ImageSpec where
  "ImageSpec_default =
     \<lparr>width = 0, height = 0, full_x = 0, full_y = 0, full_width = 0, full_height = 0,
      nchannels = 0, format = TypeUnknown, channelformats = [], extra_attribs = []\<rparr>"

text \<open>Modelled from the spec: \<open>set_format\<close> makes every channel of the given sample
  type.\<close>

definition set_format :: "ImageSpec \<Rightarrow> TypeDesc \<Rightarrow> ImageSpec" where
  "set_format spec fmt = spec\<lparr>format := fmt, channelformats := []\<rparr>"

text \<open>Modelled from the spec: \<open>find_attribute name searchtype\<close> yields the first
  attribute of that name and type, or the null pointer (\<open>None\<close>).\<close>

definition find_attribute :: "ImageSpec \<Rightarrow> string \<Rightarrow> TypeDesc \<Rightarrow> ParamValue option" where
  "find_attribute spec name searchtype =
     find (\<lambda>p. pv_name p = name \<and> pv_type p = searchtype) (extra_attribs spec)"

text \<open>Modelled from the spec: \<open>get_string_attribute name defaultval\<close> yields the value
  of the string attribute of that name, or the default.\<close>

definition get_string_attribute :: "ImageSpec \<Rightarrow> string \<Rightarrow> string \<Rightarrow> string" where
  "get_string_attribute spec name defaultval =
     (case find_attribute spec name TypeString of
        None \<Rightarrow> defaultval
      | Some p \<Rightarrow> (case pv_data p of StringData v \<Rightarrow> v | _ \<Rightarrow> defaultval))"

text \<open>The floats behind \<open>(float*)p->data()\<close>.\<close>

fun pv_floats :: "ParamValue \<Rightarrow> float32 list" where
  "pv_floats p = (case pv_data p of FloatData fs \<Rightarrow> fs | _ \<Rightarrow> [])"

text \<open>\<open>std::copy(src, src+n, dst)\<close> into an array member: the first \<open>n\<close> elements of
  \<open>dst\<close> are replaced.\<close>

definition std_copy :: "'a list \<Rightarrow> nat \<Rightarrow> 'a list \<Rightarrow> 'a list" where
  "std_copy src n dst = take n src @ drop n dst"

subsection \<open>The container library\<close>

text \<open>
  Modelled from the spec: libtiff is outside the repository. A handle is a pointer
  (\<open>0\<close> is the null pointer). Each call the plugin makes is recorded, in order, with the
  arguments it passes; the numeric constants are those of \<open>tiff.h\<close>.
\<close>

type_synonym TIFF_ptr = nat

definition nullptr :: TIFF_ptr where
  "nullptr = 0"

datatype ttag =
  TIFFTAG_DNGVERSION | TIFFTAG_SUBFILETYPE | TIFFTAG_COMPRESSION | TIFFTAG_MAKE
  | TIFFTAG_MODEL | TIFFTAG_IMAGEWIDTH | TIFFTAG_IMAGELENGTH | TIFFTAG_BITSPERSAMPLE
  | TIFFTAG_ROWSPERSTRIP | TIFFTAG_ORIENTATION | TIFFTAG_PHOTOMETRIC
  | TIFFTAG_SAMPLESPERPIXEL | TIFFTAG_PLANARCONFIG | TIFFTAG_SAMPLEFORMAT
  | TIFFTAG_CFAREPEATPATTERNDIM | TIFFTAG_CFAPATTERN | TIFFTAG_UNIQUECAMERAMODEL
  | TIFFTAG_COLORMATRIX1 | TIFFTAG_COLORMATRIX2 | TIFFTAG_ASSHOTNEUTRAL
  | TIFFTAG_CFALAYOUT | TIFFTAG_CFAPLANECOLOR | TIFFTAG_ACTIVEAREA

datatype tiff_arg =
  IntArg "32 word"
  | StrArg string
  | BytesArg "byte list"
  | ShortsArg "16 word list"
  | FloatsArg "float32 list"
  | UInt32sArg "32 word list"

datatype tiff_call =
  TIFFOpen string string
  | TIFFSetField TIFF_ptr ttag tiff_arg
  | TIFFWriteScanline TIFF_ptr "byte list" "32 word" "16 word"
  | TIFFClose TIFF_ptr

definition COMPRESSION_NONE :: "32 word" where
  "COMPRESSION_NONE = 1"

definition ORIENTATION_TOPLEFT :: "32 word" where
  "ORIENTATION_TOPLEFT = 1"

definition PHOTOMETRIC_CFA :: "32 word" where
  "PHOTOMETRIC_CFA = 32803"

definition PLANARCONFIG_CONTIG :: "32 word" where
  "PLANARCONFIG_CONTIG = 1"

definition SAMPLEFORMAT_UINT :: "32 word" where
  "SAMPLEFORMAT_UINT = 1"

text \<open>The values passed for one tag of one handle, in the order of the calls.\<close>

fun tiff_writes :: "tiff_call list \<Rightarrow> TIFF_ptr \<Rightarrow> ttag \<Rightarrow> tiff_arg list" where
  "tiff_writes [] h t = []"
| "tiff_writes (TIFFSetField h' t' v # cs) h t =
     (if h' = h \<and> t' = t then v # tiff_writes cs h t else tiff_writes cs h t)"
| "tiff_writes (c # cs) h t = tiff_writes cs h t"

text \<open>Modelled from the spec: the value a handle's directory holds for a tag after a
  sequence of calls; a later \<open>TIFFSetField\<close> of a tag replaces an earlier one.\<close>

definition tiff_field :: "tiff_call list \<Rightarrow> TIFF_ptr \<Rightarrow> ttag \<Rightarrow> tiff_arg option" where
  "tiff_field cs h t = (case tiff_writes cs h t of [] \<Rightarrow> None | v # vs \<Rightarrow> Some (last (v # vs)))"

subsection \<open>The class \<open>RawOutput\<close>\<close>

text \<open>
  The members of lines 33-46, with \<open>m_spec\<close> and the error message of the base class
  \<open>ImageOutput\<close>. Modelled from the spec: \<open>errorf\<close> of the base class records a
  message.
\<close>

datatype OpenMode = Create | AppendSubimage | AppendMIPLevel

record RawOutput =
  m_spec :: ImageSpec
  m_errmessage :: "string list"
  m_tif :: TIFF_ptr
  m_scratch :: "byte list"
  m_bayerPatternDimensions :: "16 word list"
  m_colormatrix1 :: "float32 list"
  m_colormatrix2 :: "float32 list"
  m_asShotNeutral :: "float32 list"

definition errorf :: "RawOutput \<Rightarrow> string \<Rightarrow> RawOutput" where
  "errorf s msg = s\<lparr>m_errmessage := m_errmessage s @ [msg]\<rparr>"

definition identity33 :: "float32 list" where
  "identity33 =
     [f32_one, f32_zero, f32_zero,
      f32_zero, f32_one, f32_zero,
      f32_zero, f32_zero, f32_one]"

text \<open>
  The constructor \<open>RawOutput() {}\<close> of line 20. The arrays take their default member
  initialisers (lines 35-46) and \<open>m_scratch\<close> is an empty vector. \<open>TIFF* m_tif\<close>
  (line 33) has no initialiser and the constructor's body is empty, so the pointer
  holds whatever the storage held: that value is the argument \<open>garbage\<close>.
\<close>

definition RawOutput_ctor :: "TIFF_ptr \<Rightarrow> RawOutput" where
  "RawOutput_ctor garbage =
     \<lparr>m_spec = ImageSpec_default,
      m_errmessage = [],
      m_tif = garbage,
      m_scratch = [],
      m_bayerPatternDimensions = [2, 2],
      m_colormatrix1 = identity33,
      m_colormatrix2 = identity33,
      m_asShotNeutral = [f32_one, f32_one, f32_one]\<rparr>"

text \<open>
  \<open>RawOutput::open\<close>, lines 115-203 (the branch without \<open>_WIN32\<close>), in the order of
  the source: the fixed tags and the filter pattern (lines 139-164), the three
  calibration attributes (lines 166-188), and the last tags (lines 190-199).
\<close>

definition open_tags :: "RawOutput \<Rightarrow> (ttag \<times> tiff_arg) list" where
  "open_tags s =
     [(TIFFTAG_DNGVERSION, BytesArg [1, 1, 0, 0]),
      (TIFFTAG_SUBFILETYPE, IntArg 0),
      (TIFFTAG_COMPRESSION, IntArg COMPRESSION_NONE),
      (TIFFTAG_MAKE, StrArg []),
      (TIFFTAG_MODEL, StrArg []),
      (TIFFTAG_IMAGEWIDTH, IntArg (width (m_spec s))),
      (TIFFTAG_IMAGELENGTH, IntArg (height (m_spec s))),
      (TIFFTAG_BITSPERSAMPLE, IntArg 16),
      (TIFFTAG_ROWSPERSTRIP, IntArg 1),
      (TIFFTAG_ORIENTATION, IntArg ORIENTATION_TOPLEFT),
      (TIFFTAG_PHOTOMETRIC, IntArg PHOTOMETRIC_CFA),
      (TIFFTAG_SAMPLESPERPIXEL, IntArg 1),
      (TIFFTAG_PLANARCONFIG, IntArg PLANARCONFIG_CONTIG),
      (TIFFTAG_SAMPLEFORMAT, IntArg SAMPLEFORMAT_UINT),
      (TIFFTAG_CFAREPEATPATTERNDIM, ShortsArg (m_bayerPatternDimensions s)),
      (TIFFTAG_CFAPATTERN,
         BytesArg (take 4 (filter_str_to_cfapattern
           (get_string_attribute (m_spec s) ''raw:FilterPattern'' [])))),
      (TIFFTAG_MAKE, StrArg ''DNG''),
      (TIFFTAG_UNIQUECAMERAMODEL, StrArg ''DNG'')]"

definition open_colormatrix1 :: "RawOutput \<Rightarrow> RawOutput \<times> (ttag \<times> tiff_arg) list" where
  "open_colormatrix1 s =
     (let s' = (case find_attribute (m_spec s) ''raw:ColorMatrix1'' TypeMatrix33 of
                  None \<Rightarrow> s
                | Some p \<Rightarrow> s\<lparr>m_colormatrix1 := std_copy (pv_floats p) 9 (m_colormatrix1 s)\<rparr>)
      in (s', [(TIFFTAG_COLORMATRIX1, FloatsArg (take 9 (m_colormatrix1 s')))]))"

definition open_colormatrix2 :: "RawOutput \<Rightarrow> RawOutput \<times> (ttag \<times> tiff_arg) list" where
  "open_colormatrix2 s =
     (case find_attribute (m_spec s) ''raw:ColorMatrix2'' TypeMatrix33 of
        None \<Rightarrow> (s, [])
      | Some p \<Rightarrow>
          (let s' = s\<lparr>m_colormatrix2 := std_copy (pv_floats p) 9 (m_colormatrix2 s)\<rparr>
           in (s', [(TIFFTAG_COLORMATRIX2, FloatsArg (take 9 (m_colormatrix2 s')))])))"

definition open_asShotNeutral :: "RawOutput \<Rightarrow> RawOutput \<times> (ttag \<times> tiff_arg) list" where
  "open_asShotNeutral s =
     (let s' = (case find_attribute (m_spec s) ''raw:asShotNeutral'' TypeColor of
                  None \<Rightarrow> s
                | Some p \<Rightarrow> s\<lparr>m_asShotNeutral := std_copy (pv_floats p) 3 (m_asShotNeutral s)\<rparr>)
      in (s', [(TIFFTAG_ASSHOTNEUTRAL, FloatsArg (take 3 (m_asShotNeutral s')))]))"

definition open_tail_tags :: "RawOutput \<Rightarrow> (ttag \<times> tiff_arg) list" where
  "open_tail_tags s =
     [(TIFFTAG_CFALAYOUT, IntArg 1),
      (TIFFTAG_CFAPLANECOLOR, BytesArg [0, 1, 2]),
      (TIFFTAG_ACTIVEAREA,
         UInt32sArg [full_y (m_spec s),
                     full_x (m_spec s),
                     full_y (m_spec s) + full_height (m_spec s),
                     full_x (m_spec s) + full_width (m_spec s)])]"

text \<open>
  The argument \<open>tif\<close> is what \<open>TIFFOpen\<close> returns. The result is the returned bool,
  the object afterwards, and the libtiff calls made, in order.
\<close>

definition RawOutput_open ::
  "RawOutput \<Rightarrow> string \<Rightarrow> ImageSpec \<Rightarrow> OpenMode \<Rightarrow> TIFF_ptr
     \<Rightarrow> bool \<times> RawOutput \<times> tiff_call list" where
  "RawOutput_open s name userspec mode tif =
     (let s0 = s\<lparr>m_spec := userspec\<rparr>;
          opening = [TIFFOpen name (if mode = AppendSubimage then ''a'' else ''w'')];
          s1 = s0\<lparr>m_tif := tif\<rparr>
      in if m_tif s1 = nullptr
         then (False, errorf s1 (''Could not open '' @ [CHR 0x22] @ name @ [CHR 0x22]), opening)
         else
           (let s2 = s1\<lparr>m_spec := set_format ((m_spec s1)\<lparr>nchannels := 1\<rparr>) TypeUInt16\<rparr>;
                tags1 = open_tags s2;
                (s3, tags2) = open_colormatrix1 s2;
                (s4, tags3) = open_colormatrix2 s3;
                (s5, tags4) = open_asShotNeutral s4;
                tags5 = open_tail_tags s5
            in (True, s5,
                opening @ map (\<lambda>(t, v). TIFFSetField (m_tif s5) t v)
                            (tags1 @ tags2 @ tags3 @ tags4 @ tags5))))"

text \<open>\<open>RawOutput::close\<close>, lines 205-272; the block under \<open>#if 0\<close> is not compiled.\<close>

definition RawOutput_close :: "RawOutput \<Rightarrow> bool \<times> RawOutput \<times> tiff_call list" where
  "RawOutput_close s =
     (if m_tif s = nullptr then (True, s, [])
      else (True, s\<lparr>m_tif := nullptr\<rparr>, [TIFFClose (m_tif s)]))"

text \<open>
  \<open>move_to_scratch\<close>, lines 50-56. \<open>bytes\<close> is the memory \<open>data\<close> points to and
  \<open>same_ptr\<close> says whether \<open>data\<close> is \<open>m_scratch.data()\<close>.
\<close>

definition move_to_scratch :: "RawOutput \<Rightarrow> byte list \<Rightarrow> bool \<Rightarrow> nat \<Rightarrow> RawOutput" where
  "move_to_scratch s bytes same_ptr nbytes =
     (if m_scratch s = [] \<or> \<not> same_ptr
      then s\<lparr>m_scratch := take nbytes bytes\<rparr>
      else s)"

text \<open>
  \<open>RawOutput::write_scanline\<close>, lines 274-288. \<open>auto_stride\<close> and
  \<open>to_native_scanline\<close> belong to the base class: \<open>native\<close> is the memory behind the
  pointer \<open>to_native_scanline\<close> returns (the row in the native format) and \<open>same_ptr\<close>
  whether that pointer is \<open>m_scratch.data()\<close>. \<open>written\<close> is the value
  \<open>TIFFWriteScanline\<close> returns (1 on success, -1 on failure); the method does not read
  it. \<open>size_t\<close> is 64 bits wide.
\<close>

definition RawOutput_write_scanline ::
  "RawOutput \<Rightarrow> 32 word \<Rightarrow> 32 word \<Rightarrow> byte list \<Rightarrow> bool \<Rightarrow> int
     \<Rightarrow> bool \<times> RawOutput \<times> tiff_call list" where
  "RawOutput_write_scanline s y z native same_ptr written =
     (let scanline_vals = (scast (width (m_spec s)) :: 64 word);
          nbytes = scanline_vals * word_of_nat (TypeDesc_size (format (m_spec s)));
          s' = move_to_scratch s native same_ptr (unat nbytes)
      in (True, s', [TIFFWriteScanline (m_tif s') (m_scratch s') y 0]))"

subsection \<open>A host driving the plugin\<close>

text \<open>
  The host owns ImageSpec objects, here stored by address, and passes one to \<open>open\<close>
  by const reference. A call carries the answers of the outside world with it.
\<close>

record world =
  caller_specs :: "nat \<Rightarrow> ImageSpec"
  out :: RawOutput
  trace :: "tiff_call list"
  results :: "bool list"

datatype call =
  Open string nat OpenMode TIFF_ptr
  | Close
  | WriteScanline "32 word" "32 word" "byte list" bool int

definition record_call :: "world \<Rightarrow> bool \<times> RawOutput \<times> tiff_call list \<Rightarrow> world" where
  "record_call w r =
     (case r of (ok, s', cs) \<Rightarrow>
        w\<lparr>out := s', trace := trace w @ cs, results := results w @ [ok]\<rparr>)"

fun exec :: "call \<Rightarrow> world \<Rightarrow> world" where
  "exec (Open name a mode tif) w =
     record_call w (RawOutput_open (out w) name (caller_specs w a) mode tif)"
| "exec Close w = record_call w (RawOutput_close (out w))"
| "exec (WriteScanline y z native same_ptr written) w =
     record_call w (RawOutput_write_scanline (out w) y z native same_ptr written)"

definition run :: "call list \<Rightarrow> world \<Rightarrow> world" where
  "run calls w = fold exec calls w"

fun is_Open :: "call \<Rightarrow> bool" where
  "is_Open (Open name a mode tif) = True"
| "is_Open c = False"

subsection \<open>ImageSpec objects in memory\<close>

text \<open>
  \<open>open\<close> receives the caller's ImageSpec by reference (\<open>const ImageSpec& userspec\<close>,
  line 116), and \<open>m_spec\<close> is an ImageSpec object of its own inside the plugin. Here
  every ImageSpec object lives at an address: \<open>userspec\<close> is the address of the
  caller's object and \<open>this\<close> the address of the plugin's \<open>m_spec\<close>. The three
  statements of \<open>open\<close> that assign to an ImageSpec are written as stores: the copy
  \<open>m_spec = userspec\<close> (line 119), \<open>m_spec.nchannels = 1\<close> (line 133) and
  \<open>m_spec.set_format(TypeDesc::UINT16)\<close> (line 134). The field \<open>m_spec\<close> of the record
  is the plugin's view of the object at \<open>this\<close>. Everything else is as in
  \<open>RawOutput_open\<close>. \<open>close\<close> and \<open>write_scanline\<close> assign to no ImageSpec; they
  read the object at \<open>this\<close>.
\<close>

type_synonym addr = nat

type_synonym spec_memory = "addr \<Rightarrow> ImageSpec"

definition open_in_memory ::
  "addr \<Rightarrow> spec_memory \<Rightarrow> RawOutput \<Rightarrow> string \<Rightarrow> addr \<Rightarrow> OpenMode \<Rightarrow> TIFF_ptr
     \<Rightarrow> bool \<times> spec_memory \<times> RawOutput \<times> tiff_call list" where
  "open_in_memory this mem s name userspec mode tif =
     (let mem1 = mem(this := mem userspec);
          opening = [TIFFOpen name (if mode = AppendSubimage then ''a'' else ''w'')];
          s1 = s\<lparr>m_spec := mem1 this, m_tif := tif\<rparr>
      in if m_tif s1 = nullptr
         then (False, mem1,
               errorf s1 (''Could not open '' @ [CHR 0x22] @ name @ [CHR 0x22]), opening)
         else
           (let mem2 = mem1(this := (mem1 this)\<lparr>nchannels := 1\<rparr>);
                mem3 = mem2(this := set_format (mem2 this) TypeUInt16);
                s2 = s1\<lparr>m_spec := mem3 this\<rparr>;
                tags1 = open_tags s2;
                (s3, tags2) = open_colormatrix1 s2;
                (s4, tags3) = open_colormatrix2 s3;
                (s5, tags4) = open_asShotNeutral s4;
                tags5 = open_tail_tags s5
            in (True, mem3, s5,
                opening @ map (\<lambda>(t, v). TIFFSetField (m_tif s5) t v)
                            (tags1 @ tags2 @ tags3 @ tags4 @ tags5))))"

fun exec_in_memory ::
  "addr \<Rightarrow> call \<Rightarrow> spec_memory \<times> RawOutput \<Rightarrow> spec_memory \<times> RawOutput" where
  "exec_in_memory this (Open name userspec mode tif) (mem, s) =
     (case open_in_memory this mem s name userspec mode tif of
        (ok, mem', s', cs) \<Rightarrow> (mem', s'))"
| "exec_in_memory this Close (mem, s) =
     (mem, fst (snd (RawOutput_close (s\<lparr>m_spec := mem this\<rparr>))))"
| "exec_in_memory this (WriteScanline y z native same_ptr written) (mem, s) =
     (mem, fst (snd (RawOutput_write_scanline (s\<lparr>m_spec := mem this\<rparr>)
                       y z native same_ptr written)))"

definition run_in_memory ::
  "addr \<Rightarrow> call list \<Rightarrow> spec_memory \<times> RawOutput \<Rightarrow> spec_memory \<times> RawOutput" where
  "run_in_memory this calls st = fold (exec_in_memory this) calls st"

subsection \<open>Properties of the encoder\<close>

lemma upt_0_4: "[0..<4] = [0, 1, 2, Suc 2]"
  by (simp add: upt_rec numeral_eq_Suc)

lemma four_chars:
  assumes "length (xs :: 'a list) = 4"
  obtains a b c d where "xs = [a, b, c, d]"
proof -
  from assms obtain a b c d where "xs = [a, b, c, d]"
    by (auto simp: numeral_eq_Suc length_Suc_conv)
  then show ?thesis by (rule that)
qed

lemma filter_str_to_cfapattern_four:
  "filter_str_to_cfapattern [a, b, c, d] =
     [channel_to_cfa_index a, channel_to_cfa_index b,
      channel_to_cfa_index c, channel_to_cfa_index d]"
  by (simp add: filter_str_to_cfapattern_def upt_0_4 numeral_eq_Suc)

lemma filter_str_to_cfapattern_other:
  "length f \<noteq> 4 \<Longrightarrow> filter_str_to_cfapattern f = [0, 0, 0, 0]"
  by (simp add: filter_str_to_cfapattern_def numeral_eq_Suc)

lemma channel_to_cfa_index_table:
  "map_of spec_cfa_table c = Some b \<Longrightarrow> channel_to_cfa_index c = b"
  by (auto simp: spec_cfa_table_def channel_to_cfa_index_def split: if_splits)

lemma channel_to_cfa_index_lenient:
  "map_of spec_cfa_table c = None \<Longrightarrow> channel_to_cfa_index c = 0"
  by (auto simp: spec_cfa_table_def channel_to_cfa_index_def split: if_splits)

lemma table_dom: "c \<in> set ''RGBCMYW'' \<Longrightarrow> \<exists>b. map_of spec_cfa_table c = Some b"
  by (auto simp: spec_cfa_table_def)

lemma table_dom_iff: "(c \<in> set ''RGBCMYW'') = (map_of spec_cfa_table c \<noteq> None)"
  by (auto simp: spec_cfa_table_def)

text \<open>
  Claim C4. For every filter string of four characters, all of them among R, G, B, C, M,
  Y, W, the encoded pattern is the specification's table applied character by
  character; for every string whose length is not 4, the pattern is four zero bytes.
\<close>

theorem filter_str_to_cfapattern_encodes:
  "(length f = 4 \<and> set f \<subseteq> set ''RGBCMYW''
      \<longrightarrow> map Some (filter_str_to_cfapattern f) = map (map_of spec_cfa_table) f)
   \<and> (length f \<noteq> 4 \<longrightarrow> filter_str_to_cfapattern f = [0, 0, 0, 0])"
proof (intro conjI impI)
  assume h: "length f = 4 \<and> set f \<subseteq> set ''RGBCMYW''"
  then obtain a b c d where f: "f = [a, b, c, d]"
    by (auto elim: four_chars)
  have enc: "Some (channel_to_cfa_index x) = map_of spec_cfa_table x" if "x \<in> set f" for x
  proof -
    from that h have "x \<in> set ''RGBCMYW''" by blast
    then obtain y where "map_of spec_cfa_table x = Some y"
      using table_dom by blast
    then show ?thesis
      by (simp add: channel_to_cfa_index_table)
  qed
  show "map Some (filter_str_to_cfapattern f) = map (map_of spec_cfa_table) f"
    unfolding f filter_str_to_cfapattern_four
    using enc [of a] enc [of b] enc [of c] enc [of d] by (simp add: f)
next
  assume "length f \<noteq> 4"
  then show "filter_str_to_cfapattern f = [0, 0, 0, 0]"
    by (rule filter_str_to_cfapattern_other)
qed

theorem filter_str_to_cfapattern_encodes_witness:
  "length ''RGGB'' = 4 \<and> set ''RGGB'' \<subseteq> set ''RGBCMYW''
   \<and> map Some (filter_str_to_cfapattern ''RGGB'') = [Some 0, Some 1, Some 1, Some 2]
   \<and> length ''RGB'' \<noteq> 4
   \<and> filter_str_to_cfapattern ''RGB'' = [0, 0, 0, 0]"
  using filter_str_to_cfapattern_encodes [of "''RGGB''"]
        filter_str_to_cfapattern_encodes [of "''RGB''"]
  by (simp add: spec_cfa_table_def)

text \<open>
  Claim C10. The encoder is total and lenient per character: its result always has
  four bytes, and for a string of four characters every character outside R, G, B, C,
  M, Y, W encodes to 0 while every other character encodes by the table.
\<close>

theorem filter_str_to_cfapattern_total_lenient:
  "length (filter_str_to_cfapattern f) = 4
   \<and> (length f = 4 \<longrightarrow>
        (\<forall>i<4. (f ! i \<notin> set ''RGBCMYW'' \<longrightarrow> filter_str_to_cfapattern f ! i = 0)
             \<and> (f ! i \<in> set ''RGBCMYW''
                  \<longrightarrow> map_of spec_cfa_table (f ! i) = Some (filter_str_to_cfapattern f ! i))))"
proof (intro conjI impI allI)
  show "length (filter_str_to_cfapattern f) = 4"
  proof (cases "length f = 4")
    case True
    then obtain a b c d where "f = [a, b, c, d]" by (rule four_chars)
    then show ?thesis by (simp add: filter_str_to_cfapattern_four)
  next
    case False
    then show ?thesis by (simp add: filter_str_to_cfapattern_other)
  qed
next
  fix i :: nat
  assume len: "length f = 4" and i: "i < 4"
  then obtain a b c d where f: "f = [a, b, c, d]" by (auto elim: four_chars)
  from i have "i = 0 \<or> i = 1 \<or> i = 2 \<or> i = 3" by arith
  then have nth: "filter_str_to_cfapattern f ! i = channel_to_cfa_index (f ! i)"
    unfolding f filter_str_to_cfapattern_four by (auto simp: numeral_eq_Suc)
  {
    assume "f ! i \<notin> set ''RGBCMYW''"
    then have "map_of spec_cfa_table (f ! i) = None"
      by (simp only: table_dom_iff) simp
    then show "filter_str_to_cfapattern f ! i = 0"
      by (simp add: nth channel_to_cfa_index_lenient)
  }
  {
    assume "f ! i \<in> set ''RGBCMYW''"
    then obtain y where y: "map_of spec_cfa_table (f ! i) = Some y"
      using table_dom by blast
    then show "map_of spec_cfa_table (f ! i) = Some (filter_str_to_cfapattern f ! i)"
      by (simp add: nth channel_to_cfa_index_table)
  }
qed

theorem filter_str_to_cfapattern_total_lenient_witness:
  "length ''RxGB'' = 4
   \<and> length (filter_str_to_cfapattern ''RxGB'') = 4
   \<and> filter_str_to_cfapattern ''RxGB'' ! 1 = 0
   \<and> Some (filter_str_to_cfapattern ''RxGB'' ! 2) = Some 1
   \<and> length (filter_str_to_cfapattern ''RGGBRGGB'') = 4"
proof -
  have len: "length ''RxGB'' = 4" by simp
  note t = filter_str_to_cfapattern_total_lenient [of "''RxGB''"]
  from t have l4: "length (filter_str_to_cfapattern ''RxGB'') = 4" by blast
  from t len have at1: "''RxGB'' ! 1 \<notin> set ''RGBCMYW'' \<longrightarrow> filter_str_to_cfapattern ''RxGB'' ! 1 = 0"
    by (auto dest: spec [of _ 1])
  from t len have at2: "''RxGB'' ! 2 \<in> set ''RGBCMYW''
      \<longrightarrow> map_of spec_cfa_table (''RxGB'' ! 2) = Some (filter_str_to_cfapattern ''RxGB'' ! 2)"
    by (auto dest: spec [of _ 2])
  have long: "length (filter_str_to_cfapattern ''RGGBRGGB'') = 4"
    using filter_str_to_cfapattern_total_lenient [of "''RGGBRGGB''"] by blast
  from at1 have "filter_str_to_cfapattern ''RxGB'' ! 1 = 0" by simp
  moreover from at2 have "Some (filter_str_to_cfapattern ''RxGB'' ! 2) = Some 1"
    by (simp add: spec_cfa_table_def)
  ultimately show ?thesis using len l4 long by simp
qed

subsection \<open>Properties of \<open>open\<close>\<close>

lemma tiff_writes_set_fields:
  "tiff_writes (map (\<lambda>(t, v). TIFFSetField h t v) tags) h t
     = map snd (filter (\<lambda>tv. fst tv = t) tags)"
  by (induction tags) auto

lemma tiff_writes_append:
  "tiff_writes (xs @ ys) h t = tiff_writes xs h t @ tiff_writes ys h t"
  by (induction xs h t rule: tiff_writes.induct) simp_all

lemma tiff_writes_set_fields_other:
  "h' \<noteq> h \<Longrightarrow> tiff_writes (map (\<lambda>(t, v). TIFFSetField h' t v) tags) h t = []"
  by (induction tags) auto

lemma open_colormatrix1_frame:
  "m_tif (fst (open_colormatrix1 s)) = m_tif s"
  "m_spec (fst (open_colormatrix1 s)) = m_spec s"
  "m_errmessage (fst (open_colormatrix1 s)) = m_errmessage s"
  "m_asShotNeutral (fst (open_colormatrix1 s)) = m_asShotNeutral s"
  "m_colormatrix2 (fst (open_colormatrix1 s)) = m_colormatrix2 s"
  by (simp_all add: open_colormatrix1_def Let_def split: option.splits)

lemma open_colormatrix2_frame:
  "m_tif (fst (open_colormatrix2 s)) = m_tif s"
  "m_spec (fst (open_colormatrix2 s)) = m_spec s"
  "m_errmessage (fst (open_colormatrix2 s)) = m_errmessage s"
  "m_asShotNeutral (fst (open_colormatrix2 s)) = m_asShotNeutral s"
  "m_colormatrix1 (fst (open_colormatrix2 s)) = m_colormatrix1 s"
  by (simp_all add: open_colormatrix2_def Let_def split: option.splits)

lemma open_asShotNeutral_frame:
  "m_tif (fst (open_asShotNeutral s)) = m_tif s"
  "m_spec (fst (open_asShotNeutral s)) = m_spec s"
  "m_errmessage (fst (open_asShotNeutral s)) = m_errmessage s"
  "m_colormatrix1 (fst (open_asShotNeutral s)) = m_colormatrix1 s"
  "m_colormatrix2 (fst (open_asShotNeutral s)) = m_colormatrix2 s"
  by (simp_all add: open_asShotNeutral_def Let_def split: option.splits)

lemmas open_frames = open_colormatrix1_frame open_colormatrix2_frame open_asShotNeutral_frame

lemma open_ok:
  assumes "tif \<noteq> nullptr"
  shows "RawOutput_open s name userspec mode tif =
    (let s2 = s\<lparr>m_tif := tif, m_spec := set_format (userspec\<lparr>nchannels := 1\<rparr>) TypeUInt16\<rparr>;
         r1 = open_colormatrix1 s2;
         r2 = open_colormatrix2 (fst r1);
         r3 = open_asShotNeutral (fst r2)
     in (True, fst r3,
         TIFFOpen name (if mode = AppendSubimage then ''a'' else ''w'')
         # map (\<lambda>(t, v). TIFFSetField tif t v)
             (open_tags s2 @ snd r1 @ snd r2 @ snd r3 @ open_tail_tags (fst r3))))"
  using assms by (simp add: RawOutput_open_def Let_def case_prod_beta open_frames)

lemma open_tags_writes:
  "map snd (filter (\<lambda>tv. fst tv = TIFFTAG_MAKE) (open_tags s)) = [StrArg [], StrArg ''DNG'']"
  "map snd (filter (\<lambda>tv. fst tv = TIFFTAG_MODEL) (open_tags s)) = [StrArg []]"
  "map snd (filter (\<lambda>tv. fst tv = TIFFTAG_UNIQUECAMERAMODEL) (open_tags s)) = [StrArg ''DNG'']"
  "filter (\<lambda>tv. fst tv = TIFFTAG_COLORMATRIX1) (open_tags s) = []"
  "filter (\<lambda>tv. fst tv = TIFFTAG_COLORMATRIX2) (open_tags s) = []"
  "filter (\<lambda>tv. fst tv = TIFFTAG_ASSHOTNEUTRAL) (open_tags s) = []"
  by (simp_all add: open_tags_def)

lemma open_tail_tags_writes:
  "filter (\<lambda>tv. fst tv = TIFFTAG_MAKE) (open_tail_tags s) = []"
  "filter (\<lambda>tv. fst tv = TIFFTAG_MODEL) (open_tail_tags s) = []"
  "filter (\<lambda>tv. fst tv = TIFFTAG_UNIQUECAMERAMODEL) (open_tail_tags s) = []"
  "filter (\<lambda>tv. fst tv = TIFFTAG_COLORMATRIX1) (open_tail_tags s) = []"
  "filter (\<lambda>tv. fst tv = TIFFTAG_COLORMATRIX2) (open_tail_tags s) = []"
  "filter (\<lambda>tv. fst tv = TIFFTAG_ASSHOTNEUTRAL) (open_tail_tags s) = []"
  by (simp_all add: open_tail_tags_def)

lemma open_colormatrix1_writes:
  "t \<noteq> TIFFTAG_COLORMATRIX1 \<Longrightarrow> filter (\<lambda>tv. fst tv = t) (snd (open_colormatrix1 s)) = []"
  "map snd (filter (\<lambda>tv. fst tv = TIFFTAG_COLORMATRIX1) (snd (open_colormatrix1 s)))
     = [FloatsArg (take 9 (m_colormatrix1 (fst (open_colormatrix1 s))))]"
  by (simp_all add: open_colormatrix1_def Let_def)

lemma open_colormatrix2_writes:
  "t \<noteq> TIFFTAG_COLORMATRIX2 \<Longrightarrow> filter (\<lambda>tv. fst tv = t) (snd (open_colormatrix2 s)) = []"
  by (simp_all add: open_colormatrix2_def Let_def split: option.splits)

lemma open_asShotNeutral_writes:
  "t \<noteq> TIFFTAG_ASSHOTNEUTRAL \<Longrightarrow> filter (\<lambda>tv. fst tv = t) (snd (open_asShotNeutral s)) = []"
  "map snd (filter (\<lambda>tv. fst tv = TIFFTAG_ASSHOTNEUTRAL) (snd (open_asShotNeutral s)))
     = [FloatsArg (take 3 (m_asShotNeutral (fst (open_asShotNeutral s))))]"
  by (simp_all add: open_asShotNeutral_def Let_def)

lemmas open_writes =
  open_tags_writes open_tail_tags_writes open_colormatrix1_writes open_colormatrix2_writes
  open_asShotNeutral_writes

lemma open_failed:
  "RawOutput_open s name userspec mode nullptr =
     (False,
      errorf (s\<lparr>m_spec := userspec, m_tif := nullptr\<rparr>)
        (''Could not open '' @ [CHR 0x22] @ name @ [CHR 0x22]),
      [TIFFOpen name (if mode = AppendSubimage then ''a'' else ''w'')])"
  by (simp add: RawOutput_open_def Let_def)

lemma open_result_iff: "fst (RawOutput_open s name userspec mode tif) = (tif \<noteq> nullptr)"
  by (cases "tif = nullptr") (simp_all add: open_failed open_ok Let_def)

lemma open_ok_spec:
  "tif \<noteq> nullptr \<Longrightarrow>
     m_spec (fst (snd (RawOutput_open s name userspec mode tif)))
       = set_format (userspec\<lparr>nchannels := 1\<rparr>) TypeUInt16"
  by (simp add: open_ok Let_def open_frames)

lemma open_ok_calls:
  "tif \<noteq> nullptr \<Longrightarrow>
     tiff_writes (snd (snd (RawOutput_open s name userspec mode tif))) tif t
       = (let s2 = s\<lparr>m_tif := tif, m_spec := set_format (userspec\<lparr>nchannels := 1\<rparr>) TypeUInt16\<rparr>;
              r1 = open_colormatrix1 s2;
              r2 = open_colormatrix2 (fst r1);
              r3 = open_asShotNeutral (fst r2)
          in map snd (filter (\<lambda>tv. fst tv = t)
               (open_tags s2 @ snd r1 @ snd r2 @ snd r3 @ open_tail_tags (fst r3))))"
  by (simp add: open_ok Let_def tiff_writes_append tiff_writes_set_fields)

lemma open_calls_other_handle:
  "h \<noteq> tif \<Longrightarrow> tiff_writes (snd (snd (RawOutput_open s name userspec mode tif))) h t = []"
  by (cases "tif = nullptr")
     (simp_all add: open_failed open_ok Let_def tiff_writes_append tiff_writes_set_fields_other)

lemma find_attribute_opened:
  "find_attribute (set_format (userspec\<lparr>nchannels := 1\<rparr>) TypeUInt16) n ty
     = find_attribute userspec n ty"
  by (simp add: find_attribute_def set_format_def)

text \<open>
  Claim C8. When the file cannot be opened (\<open>TIFFOpen\<close> returns the null pointer),
  \<open>open\<close> returns false and records the message \<open>Could not open "name"\<close>; the only
  libtiff call it has made is the \<open>TIFFOpen\<close> itself, so no tag is written to any
  handle.
\<close>

theorem open_failure_writes_no_tags:
  assumes "tif = nullptr"
  shows "fst (RawOutput_open s name userspec mode tif) = False
       \<and> m_errmessage (fst (snd (RawOutput_open s name userspec mode tif)))
           = m_errmessage s @ [''Could not open '' @ [CHR 0x22] @ name @ [CHR 0x22]]
       \<and> snd (snd (RawOutput_open s name userspec mode tif))
           = [TIFFOpen name (if mode = AppendSubimage then ''a'' else ''w'')]
       \<and> (\<forall>h t. tiff_writes (snd (snd (RawOutput_open s name userspec mode tif))) h t = [])"
  using assms by (simp add: open_failed errorf_def)

theorem open_failure_writes_no_tags_witness:
  "fst (RawOutput_open (RawOutput_ctor 7) ''/no/such/dir/a.dng'' ImageSpec_default Create 0) = False
   \<and> m_errmessage (fst (snd (RawOutput_open (RawOutput_ctor 7) ''/no/such/dir/a.dng''
         ImageSpec_default Create 0)))
       = [''Could not open '' @ [CHR 0x22] @ ''/no/such/dir/a.dng'' @ [CHR 0x22]]
   \<and> snd (snd (RawOutput_open (RawOutput_ctor 7) ''/no/such/dir/a.dng'' ImageSpec_default Create 0))
       = [TIFFOpen ''/no/such/dir/a.dng'' ''w'']"
  using open_failure_writes_no_tags
          [of 0 "RawOutput_ctor 7" "''/no/such/dir/a.dng''" ImageSpec_default Create]
  by (simp add: nullptr_def RawOutput_ctor_def)

lemma open_make_model_writes:
  assumes "tif \<noteq> nullptr"
  shows "tiff_writes (snd (snd (RawOutput_open s name userspec mode tif))) tif TIFFTAG_MAKE
           = [StrArg [], StrArg ''DNG'']"
    and "tiff_writes (snd (snd (RawOutput_open s name userspec mode tif))) tif TIFFTAG_MODEL
           = [StrArg []]"
    and "tiff_writes (snd (snd (RawOutput_open s name userspec mode tif))) tif
           TIFFTAG_UNIQUECAMERAMODEL = [StrArg ''DNG'']"
  using assms by (simp_all add: open_ok_calls Let_def open_writes)

text \<open>
  Claim C3, as the code has it. When \<open>open\<close> succeeds, the Make tag is written as the
  empty string and then as \<open>DNG\<close>; the Model tag is written once, as the empty
  string, and stays empty; the tag written as \<open>DNG\<close> on line 164 is
  UniqueCameraModel. So Make and UniqueCameraModel hold \<open>DNG\<close> and Model holds the
  empty string.
\<close>

theorem open_make_and_unique_model_DNG:
  assumes "tif \<noteq> nullptr"
    and "cs = snd (snd (RawOutput_open s name userspec mode tif))"
  shows "fst (RawOutput_open s name userspec mode tif) = True
       \<and> tiff_writes cs tif TIFFTAG_MAKE = [StrArg [], StrArg ''DNG'']
       \<and> tiff_writes cs tif TIFFTAG_MODEL = [StrArg []]
       \<and> tiff_writes cs tif TIFFTAG_UNIQUECAMERAMODEL = [StrArg ''DNG'']
       \<and> tiff_field cs tif TIFFTAG_MAKE = Some (StrArg ''DNG'')
       \<and> tiff_field cs tif TIFFTAG_MODEL = Some (StrArg [])
       \<and> tiff_field cs tif TIFFTAG_UNIQUECAMERAMODEL = Some (StrArg ''DNG'')"
  using assms by (simp add: open_make_model_writes tiff_field_def open_result_iff)

theorem open_make_and_unique_model_DNG_witness:
  "(4096::nat) \<noteq> nullptr
   \<and> tiff_writes (snd (snd (RawOutput_open (RawOutput_ctor 0) ''out.dng'' ImageSpec_default Create 4096)))
        4096 TIFFTAG_MAKE = [StrArg [], StrArg ''DNG'']
   \<and> tiff_field (snd (snd (RawOutput_open (RawOutput_ctor 0) ''out.dng'' ImageSpec_default Create 4096)))
        4096 TIFFTAG_UNIQUECAMERAMODEL = Some (StrArg ''DNG'')"
proof -
  have h: "(4096::nat) \<noteq> nullptr" by (simp add: nullptr_def)
  show ?thesis
    using h open_make_and_unique_model_DNG [OF h refl, of "RawOutput_ctor 0" "''out.dng''"
        ImageSpec_default Create]
    by simp
qed

text \<open>
  Claim C3 as stated fails: after a successful \<open>open\<close> of a fresh object the Model tag
  is the empty string, not \<open>DNG\<close>.
\<close>

theorem open_model_tag_stays_empty:
  "fst (RawOutput_open (RawOutput_ctor 0) ''out.dng'' ImageSpec_default Create 4096) = True
   \<and> tiff_field (snd (snd (RawOutput_open (RawOutput_ctor 0) ''out.dng'' ImageSpec_default Create 4096)))
        4096 TIFFTAG_MODEL = Some (StrArg [])
   \<and> tiff_field (snd (snd (RawOutput_open (RawOutput_ctor 0) ''out.dng'' ImageSpec_default Create 4096)))
        4096 TIFFTAG_MODEL \<noteq> Some (StrArg ''DNG'')"
proof -
  have h: "(4096::nat) \<noteq> nullptr" by (simp add: nullptr_def)
  show ?thesis
    by (simp add: open_make_model_writes [OF h] tiff_field_def open_result_iff h)
qed

lemma open_colormatrix2_absent:
  "find_attribute (m_spec s) ''raw:ColorMatrix2'' TypeMatrix33 = None
     \<Longrightarrow> open_colormatrix2 s = (s, [])"
  by (simp add: open_colormatrix2_def)

lemma open_colormatrix2_present:
  "find_attribute (m_spec s) ''raw:ColorMatrix2'' TypeMatrix33 = Some p
     \<Longrightarrow> pv_data p = FloatData m \<Longrightarrow> length m = 9
     \<Longrightarrow> snd (open_colormatrix2 s) = [(TIFFTAG_COLORMATRIX2, FloatsArg m)]"
  by (simp add: open_colormatrix2_def Let_def std_copy_def)

lemma open_colormatrix1_absent:
  "find_attribute (m_spec s) ''raw:ColorMatrix1'' TypeMatrix33 = None
     \<Longrightarrow> open_colormatrix1 s = (s, [(TIFFTAG_COLORMATRIX1, FloatsArg (take 9 (m_colormatrix1 s)))])"
  by (simp add: open_colormatrix1_def)

lemma open_asShotNeutral_absent:
  "find_attribute (m_spec s) ''raw:asShotNeutral'' TypeColor = None
     \<Longrightarrow> open_asShotNeutral s = (s, [(TIFFTAG_ASSHOTNEUTRAL, FloatsArg (take 3 (m_asShotNeutral s)))])"
  by (simp add: open_asShotNeutral_def)

lemma open_colormatrix2_writes_absent:
  assumes "find_attribute userspec ''raw:ColorMatrix2'' TypeMatrix33 = None"
  shows "tiff_writes (snd (snd (RawOutput_open s name userspec mode tif))) h TIFFTAG_COLORMATRIX2 = []"
proof (cases "h = tif \<and> tif \<noteq> nullptr")
  case True
  then show ?thesis
    using assms
    by (simp add: open_ok_calls Let_def open_writes open_frames find_attribute_opened
          open_colormatrix2_absent)
next
  case False
  then show ?thesis
    by (auto simp: open_calls_other_handle open_failed)
qed

lemma open_colormatrix2_writes_present:
  assumes "tif \<noteq> nullptr"
    and "find_attribute userspec ''raw:ColorMatrix2'' TypeMatrix33 = Some p"
    and "pv_data p = FloatData m" and "length m = 9"
  shows "tiff_writes (snd (snd (RawOutput_open s name userspec mode tif))) tif TIFFTAG_COLORMATRIX2
           = [FloatsArg m]"
  using assms
  by (simp add: open_ok_calls Let_def open_writes open_frames find_attribute_opened
        open_colormatrix2_present)

text \<open>
  Claim C5. When \<open>find_attribute\<close> finds no \<open>raw:ColorMatrix2\<close> matrix attribute
  in the ImageSpec, \<open>open\<close> issues no \<open>TIFFSetField\<close> for the ColorMatrix2 tag on any
  handle, so the tag is absent. When the attribute is present (with its nine floats) and
  the file opens, the tag is written once, with exactly those nine values.
\<close>

theorem open_colormatrix2_tag:
  "(find_attribute userspec ''raw:ColorMatrix2'' TypeMatrix33 = None \<longrightarrow>
      (\<forall>h. tiff_writes (snd (snd (RawOutput_open s name userspec mode tif))) h
             TIFFTAG_COLORMATRIX2 = []
         \<and> tiff_field (snd (snd (RawOutput_open s name userspec mode tif))) h
             TIFFTAG_COLORMATRIX2 = None))
   \<and> (tif \<noteq> nullptr
        \<and> find_attribute userspec ''raw:ColorMatrix2'' TypeMatrix33 = Some p
        \<and> pv_data p = FloatData m \<and> length m = 9 \<longrightarrow>
      tiff_writes (snd (snd (RawOutput_open s name userspec mode tif))) tif
        TIFFTAG_COLORMATRIX2 = [FloatsArg m]
      \<and> tiff_field (snd (snd (RawOutput_open s name userspec mode tif))) tif
          TIFFTAG_COLORMATRIX2 = Some (FloatsArg m))"
  by (simp add: open_colormatrix2_writes_absent open_colormatrix2_writes_present tiff_field_def)

theorem open_colormatrix2_tag_witness:
  "find_attribute ImageSpec_default ''raw:ColorMatrix2'' TypeMatrix33 = None
   \<and> tiff_field (snd (snd (RawOutput_open (RawOutput_ctor 0) ''out.dng'' ImageSpec_default
         Create 4096))) 4096 TIFFTAG_COLORMATRIX2 = None
   \<and> (4096::nat) \<noteq> nullptr
   \<and> find_attribute (ImageSpec_default\<lparr>extra_attribs :=
          [\<lparr>pv_name = ''raw:ColorMatrix2'', pv_type = TypeMatrix33,
            pv_data = FloatData [1, 2, 3, 4, 5, 6, 7, 8, 9]\<rparr>]\<rparr>)
        ''raw:ColorMatrix2'' TypeMatrix33
       = Some \<lparr>pv_name = ''raw:ColorMatrix2'', pv_type = TypeMatrix33,
               pv_data = FloatData [1, 2, 3, 4, 5, 6, 7, 8, 9]\<rparr>
   \<and> tiff_field (snd (snd (RawOutput_open (RawOutput_ctor 0) ''out.dng''
         (ImageSpec_default\<lparr>extra_attribs :=
            [\<lparr>pv_name = ''raw:ColorMatrix2'', pv_type = TypeMatrix33,
              pv_data = FloatData [1, 2, 3, 4, 5, 6, 7, 8, 9]\<rparr>]\<rparr>)
         Create 4096))) 4096 TIFFTAG_COLORMATRIX2
       = Some (FloatsArg [1, 2, 3, 4, 5, 6, 7, 8, 9])"
proof -
  have a: "find_attribute ImageSpec_default ''raw:ColorMatrix2'' TypeMatrix33 = None"
    by (simp add: find_attribute_def ImageSpec_default_def)
  have h: "(4096::nat) \<noteq> nullptr"
    by (simp add: nullptr_def)
  have b: "find_attribute (ImageSpec_default\<lparr>extra_attribs :=
          [\<lparr>pv_name = ''raw:ColorMatrix2'', pv_type = TypeMatrix33,
            pv_data = FloatData [1, 2, 3, 4, 5, 6, 7, 8, 9]\<rparr>]\<rparr>)
        ''raw:ColorMatrix2'' TypeMatrix33
       = Some \<lparr>pv_name = ''raw:ColorMatrix2'', pv_type = TypeMatrix33,
               pv_data = FloatData [1, 2, 3, 4, 5, 6, 7, 8, 9]\<rparr>"
    by (simp add: find_attribute_def)
  show ?thesis
    using a h b
      open_colormatrix2_tag [of ImageSpec_default "RawOutput_ctor 0" "''out.dng''" Create 4096]
      open_colormatrix2_tag [of "ImageSpec_default\<lparr>extra_attribs :=
          [\<lparr>pv_name = ''raw:ColorMatrix2'', pv_type = TypeMatrix33,
            pv_data = FloatData [1, 2, 3, 4, 5, 6, 7, 8, 9]\<rparr>]\<rparr>"
        "RawOutput_ctor 0" "''out.dng''" Create 4096
        "\<lparr>pv_name = ''raw:ColorMatrix2'', pv_type = TypeMatrix33,
               pv_data = FloatData [1, 2, 3, 4, 5, 6, 7, 8, 9]\<rparr>"
        "[1, 2, 3, 4, 5, 6, 7, 8, 9]"]
    by simp
qed

lemma open_defaults_kept:
  assumes "tif \<noteq> nullptr"
    and "find_attribute userspec ''raw:ColorMatrix1'' TypeMatrix33 = None"
    and "find_attribute userspec ''raw:asShotNeutral'' TypeColor = None"
  shows "tiff_writes (snd (snd (RawOutput_open s name userspec mode tif))) tif TIFFTAG_COLORMATRIX1
           = [FloatsArg (take 9 (m_colormatrix1 s))]"
    and "tiff_writes (snd (snd (RawOutput_open s name userspec mode tif))) tif TIFFTAG_ASSHOTNEUTRAL
           = [FloatsArg (take 3 (m_asShotNeutral s))]"
  using assms
  by (simp_all add: open_ok_calls Let_def open_writes open_frames find_attribute_opened
        open_colormatrix1_absent open_asShotNeutral_absent)

lemma open_ok_errmessage:
  "tif \<noteq> nullptr \<Longrightarrow>
     m_errmessage (fst (snd (RawOutput_open s name userspec mode tif))) = m_errmessage s"
  by (simp add: open_ok Let_def open_frames)

text \<open>
  The part of claim C6 that holds. For an ImageSpec without the \<open>raw:ColorMatrix1\<close>
  and \<open>raw:asShotNeutral\<close> attributes, \<open>open\<close> on a newly constructed object whose
  file opens returns true and records no error; the ColorMatrix1 tag is written as the
  3x3 identity matrix and the AsShotNeutral tag as three times 1.0.
\<close>

theorem open_substitutes_defaults:
  assumes "tif \<noteq> nullptr"
    and "find_attribute userspec ''raw:ColorMatrix1'' TypeMatrix33 = None"
    and "find_attribute userspec ''raw:asShotNeutral'' TypeColor = None"
    and "r = RawOutput_open (RawOutput_ctor garbage) name userspec mode tif"
  shows "fst r = True
       \<and> m_errmessage (fst (snd r)) = []
       \<and> tiff_writes (snd (snd r)) tif TIFFTAG_COLORMATRIX1 = [FloatsArg identity33]
       \<and> tiff_field (snd (snd r)) tif TIFFTAG_COLORMATRIX1 = Some (FloatsArg identity33)
       \<and> tiff_writes (snd (snd r)) tif TIFFTAG_ASSHOTNEUTRAL
           = [FloatsArg [f32_one, f32_one, f32_one]]
       \<and> tiff_field (snd (snd r)) tif TIFFTAG_ASSHOTNEUTRAL
           = Some (FloatsArg [f32_one, f32_one, f32_one])"
  using assms
  by (simp add: open_defaults_kept open_ok_errmessage open_result_iff tiff_field_def
        RawOutput_ctor_def identity33_def)

theorem open_substitutes_defaults_witness:
  "(4096::nat) \<noteq> nullptr
   \<and> find_attribute ImageSpec_default ''raw:ColorMatrix1'' TypeMatrix33 = None
   \<and> find_attribute ImageSpec_default ''raw:asShotNeutral'' TypeColor = None
   \<and> fst (RawOutput_open (RawOutput_ctor 57005) ''out.dng'' ImageSpec_default Create 4096) = True
   \<and> tiff_field (snd (snd (RawOutput_open (RawOutput_ctor 57005) ''out.dng'' ImageSpec_default
         Create 4096))) 4096 TIFFTAG_COLORMATRIX1
       = Some (FloatsArg [0x3F800000, 0, 0, 0, 0x3F800000, 0, 0, 0, 0x3F800000])
   \<and> tiff_field (snd (snd (RawOutput_open (RawOutput_ctor 57005) ''out.dng'' ImageSpec_default
         Create 4096))) 4096 TIFFTAG_ASSHOTNEUTRAL
       = Some (FloatsArg [0x3F800000, 0x3F800000, 0x3F800000])"
proof -
  have h: "(4096::nat) \<noteq> nullptr"
    by (simp add: nullptr_def)
  have a: "find_attribute ImageSpec_default ''raw:ColorMatrix1'' TypeMatrix33 = None"
    by (simp add: find_attribute_def ImageSpec_default_def)
  have b: "find_attribute ImageSpec_default ''raw:asShotNeutral'' TypeColor = None"
    by (simp add: find_attribute_def ImageSpec_default_def)
  show ?thesis
    using h a b open_substitutes_defaults [OF h a b refl, of 57005 "''out.dng''" Create]
    by (simp add: identity33_def f32_one_def f32_zero_def)
qed

lemma open_ok_colormatrix1_present:
  assumes "tif \<noteq> nullptr"
    and "find_attribute userspec ''raw:ColorMatrix1'' TypeMatrix33 = Some p"
  shows "m_colormatrix1 (fst (snd (RawOutput_open s name userspec mode tif)))
           = std_copy (pv_floats p) 9 (m_colormatrix1 s)"
  using assms
  by (simp add: open_ok Let_def open_frames open_colormatrix1_def find_attribute_opened)

lemma open_ok_asShotNeutral_present:
  assumes "tif \<noteq> nullptr"
    and "find_attribute userspec ''raw:asShotNeutral'' TypeColor = Some p"
  shows "m_asShotNeutral (fst (snd (RawOutput_open s name userspec mode tif)))
           = std_copy (pv_floats p) 3 (m_asShotNeutral s)"
  using assms
  by (simp add: open_ok Let_def open_frames open_asShotNeutral_def find_attribute_opened)

lemma close_keeps_calibration:
  "m_colormatrix1 (fst (snd (RawOutput_close s))) = m_colormatrix1 s"
  "m_asShotNeutral (fst (snd (RawOutput_close s))) = m_asShotNeutral s"
  by (simp_all add: RawOutput_close_def)

text \<open>
  Claim C6, at a failing input. The member arrays are both the defaults (lines 36-46)
  and the destination of \<open>std::copy\<close> (lines 170 and 186), and nothing sets them back.
  One object writes \<open>a.dng\<close> with a ColorMatrix1 of 2.0 on the diagonal and an
  AsShotNeutral of 0.5, 1.0, 0.5, is closed, and then opens \<open>b.dng\<close> with an ImageSpec
  that has neither attribute. The second \<open>open\<close> returns true and writes the first
  file's matrix and neutral vector, not the identity and 1.0, 1.0, 1.0.
\<close>

theorem reopen_writes_previous_calibration:
  "fst (RawOutput_open
     (fst (snd (RawOutput_close
       (fst (snd (RawOutput_open (RawOutput_ctor 0) ''a.dng''
          (ImageSpec_default\<lparr>extra_attribs :=
             [\<lparr>pv_name = ''raw:ColorMatrix1'', pv_type = TypeMatrix33,
               pv_data = FloatData [0x40000000, 0, 0, 0, 0x40000000, 0, 0, 0, 0x40000000]\<rparr>,
              \<lparr>pv_name = ''raw:asShotNeutral'', pv_type = TypeColor,
               pv_data = FloatData [0x3F000000, 0x3F800000, 0x3F000000]\<rparr>]\<rparr>)
          Create 4096))))))
     ''b.dng'' ImageSpec_default Create 8192) = True
   \<and> tiff_field (snd (snd (RawOutput_open
     (fst (snd (RawOutput_close
       (fst (snd (RawOutput_open (RawOutput_ctor 0) ''a.dng''
          (ImageSpec_default\<lparr>extra_attribs :=
             [\<lparr>pv_name = ''raw:ColorMatrix1'', pv_type = TypeMatrix33,
               pv_data = FloatData [0x40000000, 0, 0, 0, 0x40000000, 0, 0, 0, 0x40000000]\<rparr>,
              \<lparr>pv_name = ''raw:asShotNeutral'', pv_type = TypeColor,
               pv_data = FloatData [0x3F000000, 0x3F800000, 0x3F000000]\<rparr>]\<rparr>)
          Create 4096))))))
     ''b.dng'' ImageSpec_default Create 8192))) 8192 TIFFTAG_COLORMATRIX1
       = Some (FloatsArg [0x40000000, 0, 0, 0, 0x40000000, 0, 0, 0, 0x40000000])
   \<and> tiff_field (snd (snd (RawOutput_open
     (fst (snd (RawOutput_close
       (fst (snd (RawOutput_open (RawOutput_ctor 0) ''a.dng''
          (ImageSpec_default\<lparr>extra_attribs :=
             [\<lparr>pv_name = ''raw:ColorMatrix1'', pv_type = TypeMatrix33,
               pv_data = FloatData [0x40000000, 0, 0, 0, 0x40000000, 0, 0, 0, 0x40000000]\<rparr>,
              \<lparr>pv_name = ''raw:asShotNeutral'', pv_type = TypeColor,
               pv_data = FloatData [0x3F000000, 0x3F800000, 0x3F000000]\<rparr>]\<rparr>)
          Create 4096))))))
     ''b.dng'' ImageSpec_default Create 8192))) 8192 TIFFTAG_ASSHOTNEUTRAL
       = Some (FloatsArg [0x3F000000, 0x3F800000, 0x3F000000])"
proof -
  define specA where "specA = ImageSpec_default\<lparr>extra_attribs :=
             [\<lparr>pv_name = ''raw:ColorMatrix1'', pv_type = TypeMatrix33,
               pv_data = FloatData [0x40000000, 0, 0, 0, 0x40000000, 0, 0, 0, 0x40000000]\<rparr>,
              \<lparr>pv_name = ''raw:asShotNeutral'', pv_type = TypeColor,
               pv_data = FloatData [0x3F000000, 0x3F800000, 0x3F000000]\<rparr>]\<rparr>"
  define s1 where "s1 = fst (snd (RawOutput_open (RawOutput_ctor 0) ''a.dng'' specA Create 4096))"
  define s2 where "s2 = fst (snd (RawOutput_close s1))"
  have h1: "(4096::nat) \<noteq> nullptr" and h2: "(8192::nat) \<noteq> nullptr"
    by (simp_all add: nullptr_def)
  have fa: "find_attribute specA ''raw:ColorMatrix1'' TypeMatrix33
      = Some \<lparr>pv_name = ''raw:ColorMatrix1'', pv_type = TypeMatrix33,
               pv_data = FloatData [0x40000000, 0, 0, 0, 0x40000000, 0, 0, 0, 0x40000000]\<rparr>"
    by (simp add: specA_def find_attribute_def)
  have fb: "find_attribute specA ''raw:asShotNeutral'' TypeColor
      = Some \<lparr>pv_name = ''raw:asShotNeutral'', pv_type = TypeColor,
               pv_data = FloatData [0x3F000000, 0x3F800000, 0x3F000000]\<rparr>"
    by (simp add: specA_def find_attribute_def TypeColor_def TypeMatrix33_def)
  have m1: "m_colormatrix1 s1 = [0x40000000, 0, 0, 0, 0x40000000, 0, 0, 0, 0x40000000]"
    unfolding s1_def
    by (simp add: open_ok_colormatrix1_present [OF h1 fa] std_copy_def RawOutput_ctor_def
          identity33_def)
  have n1: "m_asShotNeutral s1 = [0x3F000000, 0x3F800000, 0x3F000000]"
    unfolding s1_def
    by (simp add: open_ok_asShotNeutral_present [OF h1 fb] std_copy_def RawOutput_ctor_def)
  have m2: "m_colormatrix1 s2 = [0x40000000, 0, 0, 0, 0x40000000, 0, 0, 0, 0x40000000]"
    and n2: "m_asShotNeutral s2 = [0x3F000000, 0x3F800000, 0x3F000000]"
    unfolding s2_def by (simp_all add: close_keeps_calibration m1 n1)
  have a: "find_attribute ImageSpec_default ''raw:ColorMatrix1'' TypeMatrix33 = None"
    by (simp add: find_attribute_def ImageSpec_default_def)
  have b: "find_attribute ImageSpec_default ''raw:asShotNeutral'' TypeColor = None"
    by (simp add: find_attribute_def ImageSpec_default_def)
  have "fst (RawOutput_open s2 ''b.dng'' ImageSpec_default Create 8192) = True
    \<and> tiff_field (snd (snd (RawOutput_open s2 ''b.dng'' ImageSpec_default Create 8192)))
        8192 TIFFTAG_COLORMATRIX1
       = Some (FloatsArg [0x40000000, 0, 0, 0, 0x40000000, 0, 0, 0, 0x40000000])
    \<and> tiff_field (snd (snd (RawOutput_open s2 ''b.dng'' ImageSpec_default Create 8192)))
        8192 TIFFTAG_ASSHOTNEUTRAL
       = Some (FloatsArg [0x3F000000, 0x3F800000, 0x3F000000])"
    by (simp add: open_result_iff h2 tiff_field_def open_defaults_kept [OF h2 a b] m2 n2)
  then show ?thesis
    unfolding s2_def s1_def specA_def .
qed

lemma exec_keeps_spec:
  "\<not> is_Open c \<Longrightarrow> m_spec (out (exec c w)) = m_spec (out w)"
  by (cases c)
     (simp_all add: record_call_def RawOutput_close_def RawOutput_write_scanline_def
        move_to_scratch_def Let_def)

lemma run_keeps_spec:
  "\<forall>c\<in>set calls. \<not> is_Open c \<Longrightarrow> m_spec (out (run calls w)) = m_spec (out w)"
  unfolding run_def
proof (induction calls arbitrary: w)
  case Nil
  then show ?case by simp
next
  case (Cons c calls)
  then show ?case by (simp add: exec_keeps_spec)
qed

text \<open>
  Claim C7. Whatever channel count and format the caller's ImageSpec asks for, once
  \<open>open\<close> has returned true the working spec has \<open>nchannels = 1\<close> and the format
  UINT16, and they stay so through every following sequence of \<open>write_scanline\<close> and
  \<open>close\<close> calls of that session.
\<close>

theorem open_fixes_nchannels_and_format:
  assumes "fst (RawOutput_open s name userspec mode tif)"
    and "out w = fst (snd (RawOutput_open s name userspec mode tif))"
    and "\<forall>c\<in>set calls. \<not> is_Open c"
  shows "nchannels (m_spec (out (run calls w))) = 1
       \<and> format (m_spec (out (run calls w))) = TypeUInt16
       \<and> channelformats (m_spec (out (run calls w))) = []"
proof -
  from assms(1) have "tif \<noteq> nullptr"
    by (simp add: open_result_iff)
  then have "m_spec (out w) = set_format (userspec\<lparr>nchannels := 1\<rparr>) TypeUInt16"
    using assms(2) by (simp add: open_ok_spec)
  with assms(3) show ?thesis
    by (simp add: run_keeps_spec set_format_def)
qed

theorem open_fixes_nchannels_and_format_witness:
  "fst (RawOutput_open (RawOutput_ctor 0) ''out.dng'' (ImageSpec_default\<lparr>nchannels := 3\<rparr>)
         Create 4096)
   \<and> nchannels (ImageSpec_default\<lparr>nchannels := 3\<rparr>) = 3
   \<and> format (ImageSpec_default\<lparr>nchannels := 3\<rparr>) = TypeUnknown
   \<and> nchannels (m_spec (out (run [WriteScanline 0 0 [0, 32] False 1, Close]
        \<lparr>caller_specs = (\<lambda>a. ImageSpec_default),
         out = fst (snd (RawOutput_open (RawOutput_ctor 0) ''out.dng''
                 (ImageSpec_default\<lparr>nchannels := 3\<rparr>) Create 4096)),
         trace = [], results = []\<rparr>))) = 1
   \<and> format (m_spec (out (run [WriteScanline 0 0 [0, 32] False 1, Close]
        \<lparr>caller_specs = (\<lambda>a. ImageSpec_default),
         out = fst (snd (RawOutput_open (RawOutput_ctor 0) ''out.dng''
                 (ImageSpec_default\<lparr>nchannels := 3\<rparr>) Create 4096)),
         trace = [], results = []\<rparr>))) = TypeUInt16"
proof -
  have ok: "fst (RawOutput_open (RawOutput_ctor 0) ''out.dng''
              (ImageSpec_default\<lparr>nchannels := 3\<rparr>) Create 4096)"
    by (simp add: open_result_iff nullptr_def)
  have calls: "\<forall>c\<in>set [WriteScanline 0 0 [0, 32] False 1, Close]. \<not> is_Open c"
    by simp
  have spec: "nchannels (ImageSpec_default\<lparr>nchannels := 3\<rparr>) = 3
      \<and> format (ImageSpec_default\<lparr>nchannels := 3\<rparr>) = TypeUnknown"
    by (simp add: ImageSpec_default_def)
  show ?thesis
    using ok spec
      open_fixes_nchannels_and_format [OF ok _ calls,
        of "\<lparr>caller_specs = (\<lambda>a. ImageSpec_default),
         out = fst (snd (RawOutput_open (RawOutput_ctor 0) ''out.dng''
                 (ImageSpec_default\<lparr>nchannels := 3\<rparr>) Create 4096)),
         trace = [], results = []\<rparr>"]
    by simp
qed

subsection \<open>The caller's ImageSpec\<close>

lemma open_in_memory_failed:
  "open_in_memory this mem s name userspec mode nullptr =
     (False, mem(this := mem userspec),
      fst (snd (RawOutput_open s name (mem userspec) mode nullptr)),
      snd (snd (RawOutput_open s name (mem userspec) mode nullptr)))"
  by (simp add: open_in_memory_def open_failed Let_def)

lemma open_in_memory_ok:
  assumes "tif \<noteq> nullptr"
  shows "open_in_memory this mem s name userspec mode tif =
     (True, mem(this := set_format ((mem userspec)\<lparr>nchannels := 1\<rparr>) TypeUInt16),
      fst (snd (RawOutput_open s name (mem userspec) mode tif)),
      snd (snd (RawOutput_open s name (mem userspec) mode tif)))"
  using assms
  by (simp add: open_in_memory_def open_ok Let_def case_prod_beta open_frames)

lemma open_in_memory_writes_this_only:
  "a \<noteq> this \<Longrightarrow> fst (snd (open_in_memory this mem s name userspec mode tif)) a = mem a"
  by (cases "tif = nullptr") (simp_all add: open_in_memory_failed open_in_memory_ok)

lemma exec_in_memory_writes_this_only:
  "a \<noteq> this \<Longrightarrow> fst (exec_in_memory this c (mem, s)) a = mem a"
  by (cases c) (simp_all add: case_prod_beta open_in_memory_writes_this_only)

lemma run_in_memory_writes_this_only:
  "a \<noteq> this \<Longrightarrow> fst (run_in_memory this calls (mem, s)) a = mem a"
  unfolding run_in_memory_def
proof (induction calls arbitrary: mem s)
  case Nil
  show ?case by simp
next
  case (Cons c calls)
  obtain mem' s' where st: "exec_in_memory this c (mem, s) = (mem', s')"
    by (cases "exec_in_memory this c (mem, s)")
  with Cons.prems have "mem' a = mem a"
    using exec_in_memory_writes_this_only [of a this c mem s] by simp
  with Cons st show ?case by simp
qed

text \<open>
  The hypothesis of claim C9's theorem is needed: when the reference handed to \<open>open\<close>
  is the plugin's own \<open>m_spec\<close>, that object is normalised in place.
\<close>

lemma open_on_own_spec:
  "tif \<noteq> nullptr \<Longrightarrow>
     fst (snd (open_in_memory this mem s name this mode tif)) this
       = set_format ((mem this)\<lparr>nchannels := 1\<rparr>) TypeUInt16"
  by (simp add: open_in_memory_ok)

text \<open>
  Claim C9. An ImageSpec object of the caller (any object other than the plugin's own
  \<open>m_spec\<close>) is the same after every sequence of \<open>open\<close>, \<open>write_scanline\<close> and
  \<open>close\<close> calls, whichever objects those calls are given. \<open>open\<close> on the caller's
  object copies it into \<open>m_spec\<close>; when the file opens, the copy is normalised
  (\<open>nchannels = 1\<close>, format UINT16), and the caller's object keeps what it had.
\<close>

theorem caller_spec_copied_never_mutated:
  assumes "a \<noteq> this"
  shows "fst (run_in_memory this calls (mem, s)) a = mem a
       \<and> (case open_in_memory this mem s name a mode tif of
            (ok, mem', s', cs) \<Rightarrow>
              mem' a = mem a
              \<and> m_spec s' = mem' this
              \<and> mem' this = (if ok then set_format ((mem a)\<lparr>nchannels := 1\<rparr>) TypeUInt16
                              else mem a))"
proof (cases "tif = nullptr")
  case True
  with assms show ?thesis
    by (simp add: run_in_memory_writes_this_only open_in_memory_failed open_failed errorf_def
          case_prod_beta)
next
  case False
  with assms show ?thesis
    by (simp add: run_in_memory_writes_this_only open_in_memory_ok open_ok_spec case_prod_beta)
qed

theorem caller_spec_copied_never_mutated_witness:
  "(32::nat) \<noteq> 16
   \<and> fst (run_in_memory 16
        [Open ''out.dng'' 32 Create 4096, WriteScanline 0 0 [0, 32] False 1, Close]
        ((\<lambda>x. ImageSpec_default)(32 := ImageSpec_default\<lparr>nchannels := 3\<rparr>), RawOutput_ctor 0)) 32
       = ImageSpec_default\<lparr>nchannels := 3\<rparr>
   \<and> fst (open_in_memory 16
        ((\<lambda>x. ImageSpec_default)(32 := ImageSpec_default\<lparr>nchannels := 3\<rparr>))
        (RawOutput_ctor 0) ''out.dng'' 32 Create 4096) = True
   \<and> nchannels (fst (snd (open_in_memory 16
        ((\<lambda>x. ImageSpec_default)(32 := ImageSpec_default\<lparr>nchannels := 3\<rparr>))
        (RawOutput_ctor 0) ''out.dng'' 32 Create 4096)) 32) = 3
   \<and> nchannels (fst (snd (open_in_memory 16
        ((\<lambda>x. ImageSpec_default)(32 := ImageSpec_default\<lparr>nchannels := 3\<rparr>))
        (RawOutput_ctor 0) ''out.dng'' 32 Create 4096)) 16) = 1"
proof -
  have ne: "(32::nat) \<noteq> 16"
    by simp
  have ok: "fst (open_in_memory 16
        ((\<lambda>x. ImageSpec_default)(32 := ImageSpec_default\<lparr>nchannels := 3\<rparr>))
        (RawOutput_ctor 0) ''out.dng'' 32 Create 4096) = True"
    by (simp add: open_in_memory_ok nullptr_def)
  show ?thesis
    using ne ok
      caller_spec_copied_never_mutated [OF ne,
        of "[Open ''out.dng'' 32 Create 4096, WriteScanline 0 0 [0, 32] False 1, Close]"
           "(\<lambda>x. ImageSpec_default)(32 := ImageSpec_default\<lparr>nchannels := 3\<rparr>)"
           "RawOutput_ctor 0" "''out.dng''" Create 4096]
    by (simp add: case_prod_beta set_format_def)
qed

subsection \<open>Properties of \<open>write_scanline\<close>\<close>

lemma write_scanline_always_true:
  "fst (RawOutput_write_scanline s y z native same_ptr written) = True"
  by (simp add: RawOutput_write_scanline_def Let_def)

lemma write_scanline_one_write:
  "length (snd (snd (RawOutput_write_scanline s y z native same_ptr written))) = 1"
  by (simp add: RawOutput_write_scanline_def Let_def)

text \<open>
  Claim C1, at a failing input. A 2x1 image is open; \<open>TIFFWriteScanline\<close> answers
  -1 (the row could not be written). \<open>write_scanline\<close> still returns true: line 286
  drops the status and line 287 returns true. It makes the one call and does not
  retry.
\<close>

theorem write_scanline_true_after_failed_write:
  "RawOutput_write_scanline
     (fst (snd (RawOutput_open (RawOutput_ctor 0) ''out.dng''
        (ImageSpec_default\<lparr>width := 2, height := 1\<rparr>) Create 4096)))
     0 0 [0, 32, 0, 32] False (- 1)
   = (True,
      (fst (snd (RawOutput_open (RawOutput_ctor 0) ''out.dng''
        (ImageSpec_default\<lparr>width := 2, height := 1\<rparr>) Create 4096)))
        \<lparr>m_scratch := [0, 32, 0, 32]\<rparr>,
      [TIFFWriteScanline 4096 [0, 32, 0, 32] 0 0])"
proof -
  define s0 where "s0 = fst (snd (RawOutput_open (RawOutput_ctor 0) ''out.dng''
        (ImageSpec_default\<lparr>width := 2, height := 1\<rparr>) Create 4096))"
  have h: "(4096::nat) \<noteq> nullptr"
    by (simp add: nullptr_def)
  have sp: "m_spec s0
      = set_format (ImageSpec_default\<lparr>width := 2, height := 1, nchannels := 1\<rparr>) TypeUInt16"
    unfolding s0_def by (simp add: open_ok_spec [OF h])
  have wd: "width (m_spec s0) = 2" and fm: "format (m_spec s0) = TypeUInt16"
    by (simp_all add: sp set_format_def)
  have tif: "m_tif s0 = 4096"
    unfolding s0_def by (simp add: open_ok [OF h] Let_def open_frames)
  have sz: "TypeDesc_size TypeUInt16 = 2"
    by (simp add: TypeDesc_size_def TypeUInt16_def)
  have "RawOutput_write_scanline s0 0 0 [0, 32, 0, 32] False (- 1)
      = (True, s0\<lparr>m_scratch := [0, 32, 0, 32]\<rparr>, [TIFFWriteScanline 4096 [0, 32, 0, 32] 0 0])"
    by (simp add: RawOutput_write_scanline_def move_to_scratch_def Let_def wd fm tif sz)
  then show ?thesis
    unfolding s0_def .
qed

subsection \<open>Properties of \<open>close\<close>\<close>

lemma close_twice:
  "fst (RawOutput_close s) = True
   \<and> RawOutput_close (fst (snd (RawOutput_close s))) = (True, fst (snd (RawOutput_close s)), [])"
  by (simp add: RawOutput_close_def)

lemma close_after_failed_open:
  "RawOutput_close (fst (snd (RawOutput_open s name userspec mode nullptr)))
     = (True, fst (snd (RawOutput_open s name userspec mode nullptr)), [])"
  by (simp add: RawOutput_close_def open_failed errorf_def)

text \<open>
  Claim C2, at a failing input. \<open>m_tif\<close> of a newly constructed object is not
  initialised. When the storage happens to hold a non-null value, \<open>close\<close> (which the
  destructor also calls) passes that value to \<open>TIFFClose\<close>: a call on a handle that
  was never opened, where the claim promises no side effect.
\<close>

theorem close_of_fresh_object_closes_garbage:
  "RawOutput_close (RawOutput_ctor 57005)
     = (True, RawOutput_ctor nullptr, [TIFFClose 57005])"
  by (simp add: RawOutput_close_def RawOutput_ctor_def nullptr_def)

end
